theory Spec2Isabelle
  imports Complex_Main "HOL-Library.AList"
begin

section \<open>Python values\<close>

text \<open>
  The bot is dynamically typed: every constructor of \<^verbatim>\<open>state.py\<close> and
  \<^verbatim>\<open>message.py\<close> receives arbitrary objects and validates them with
  \<^verbatim>\<open>isinstance\<close>, and the decoder of \<^verbatim>\<open>net.py\<close> walks whatever
  \<^verbatim>\<open>json.loads\<close> produced. The values that can occur are therefore collected in one
  datatype: the results of \<^verbatim>\<open>json.loads\<close> (\<^verbatim>\<open>None\<close>, booleans, integers, floats,
  strings, lists, dictionaries) and the instances of the repository's classes, each with
  its private fields in the order in which \<^verbatim>\<open>__init__\<close> assigns them.

  A \<^verbatim>\<open>str\<close> is the list of its code points (those below 256), a \<^verbatim>\<open>dict\<close> the list of
  its items in insertion order. The decoder and the constructors inspect only the type of
  a float, so its value is kept as a rational. Containers are held by value here; the
  section on aliasing refines the one field whose sharing matters to a reference into a
  store.
\<close>

datatype error =
    KeyError | TypeError | ValueError | AssertionError | AttributeError | IndexError
  | ConnectionClosed

datatype Suit = HEARTS | DIAMONDS | SPADES | CLUBS

datatype ActionType = TODO

type_synonym uuid = int

datatype pyval =
    PNone
  | PBool bool
  | PInt int
  | PFloat rat
  | PStr (str_of: string)
  | PList (list_of: "pyval list")
  | PDict (items_of: "(pyval \<times> pyval) list")
  | PlayerId_obj uuid
  | Card_obj Suit
  | ActionType_obj ActionType
  | PlayerGameState_obj (pgs_cards: pyval) (pgs_folded: pyval) (pgs_stack: pyval)
      (pgs_bet: pyval) (pgs_pot_share: pyval)
  | Pot_obj (pot_amount: pyval) (pot_player_shares: pyval)
  | SharedGameState_obj (sgs_pot_total: pyval) (sgs_pots: pyval) (sgs_board_cards: pyval)
      (sgs_small_blind: pyval) (sgs_big_blind: pyval)
  | GameState_obj (gs_shared_state: pyval) (gs_player_states: pyval) (gs_dealer_player: pyval)
      (gs_small_blind_player: pyval) (gs_big_blind_player: pyval) (gs_active_player: pyval)
  | GameStateMessage_obj (msg_action_type: pyval) (msg_game_state: pyval)
      (msg_action_requested: pyval)

datatype pyclass =
    C_NoneType | C_bool | C_int | C_float | C_str | C_list | C_dict
  | C_PlayerId | C_Card | C_ActionType | C_PlayerGameState | C_Pot
  | C_SharedGameState | C_GameState | C_GameStateMessage

fun class_of :: "pyval \<Rightarrow> pyclass" where
  "class_of PNone = C_NoneType"
| "class_of (PBool _) = C_bool"
| "class_of (PInt _) = C_int"
| "class_of (PFloat _) = C_float"
| "class_of (PStr _) = C_str"
| "class_of (PList _) = C_list"
| "class_of (PDict _) = C_dict"
| "class_of (PlayerId_obj _) = C_PlayerId"
| "class_of (Card_obj _) = C_Card"
| "class_of (ActionType_obj _) = C_ActionType"
| "class_of (PlayerGameState_obj _ _ _ _ _) = C_PlayerGameState"
| "class_of (Pot_obj _ _) = C_Pot"
| "class_of (SharedGameState_obj _ _ _ _ _) = C_SharedGameState"
| "class_of (GameState_obj _ _ _ _ _ _) = C_GameState"
| "class_of (GameStateMessage_obj _ _ _) = C_GameStateMessage"

text \<open>\<^verbatim>\<open>isinstance(value, typ)\<close>. The one subclass relation among these classes is
  Python's own: \<^verbatim>\<open>bool\<close> is a subclass of \<^verbatim>\<open>int\<close>.\<close>

definition isinstance :: "pyval \<Rightarrow> pyclass \<Rightarrow> bool" where
  "isinstance v c = (class_of v = c \<or> (class_of v = C_bool \<and> c = C_int))"

text \<open>The number an instance of \<^verbatim>\<open>int\<close> stands for (\<^verbatim>\<open>False\<close> is 0, \<^verbatim>\<open>True\<close> is 1).
  It is applied to instances of \<^verbatim>\<open>int\<close> only.\<close>

fun int_of :: "pyval \<Rightarrow> int" where
  "int_of (PInt n) = n"
| "int_of (PBool b) = (if b then 1 else 0)"
| "int_of _ = 0"

text \<open>Exceptions are the left summand of a result; \<open>bind\<close> is sequencing, which stops at
  the first exception as the statements of a Python function body do.\<close>

definition bind :: "error + 'a \<Rightarrow> ('a \<Rightarrow> error + 'b) \<Rightarrow> error + 'b" where
  "bind m f = (case m of Inl e \<Rightarrow> Inl e | Inr x \<Rightarrow> f x)"

definition py_assert :: "bool \<Rightarrow> error + unit" where
  "py_assert b = (if b then Inr () else Inl AssertionError)"

text \<open>\<^verbatim>\<open>[f(x) for x in xs]\<close>\<close>

fun map_result :: "('a \<Rightarrow> error + 'b) \<Rightarrow> 'a list \<Rightarrow> error + 'b list" where
  "map_result f [] = Inr []"
| "map_result f (x # xs) = bind (f x) (\<lambda>y. bind (map_result f xs) (\<lambda>ys. Inr (y # ys)))"

text \<open>\<^verbatim>\<open>obj[key]\<close> for a string key: a dictionary is looked up (\<^verbatim>\<open>KeyError\<close> when the key
  is absent), a list or string refuses a string index and anything else is not
  subscriptable, both with \<^verbatim>\<open>TypeError\<close>.\<close>

definition getitem :: "pyval \<Rightarrow> string \<Rightarrow> error + pyval" where
  "getitem obj key =
     (case obj of
        PDict items \<Rightarrow> (case map_of items (PStr key) of None \<Rightarrow> Inl KeyError | Some v \<Rightarrow> Inr v)
      | _ \<Rightarrow> Inl TypeError)"

text \<open>\<^verbatim>\<open>for x in obj\<close>: a list yields its elements, a string its characters as strings of
  length one, a dictionary its keys; nothing else in this universe is iterable.\<close>

definition iterate :: "pyval \<Rightarrow> error + pyval list" where
  "iterate obj =
     (case obj of
        PList xs \<Rightarrow> Inr xs
      | PStr s \<Rightarrow> Inr (map (\<lambda>c. PStr [c]) s)
      | PDict items \<Rightarrow> Inr (map fst items)
      | _ \<Rightarrow> Inl TypeError)"

text \<open>
  \<^verbatim>\<open>hash(obj)\<close> succeeds on the immutable built-in values and on instances of classes that
  keep \<^verbatim>\<open>object.__hash__\<close>. Lists and dictionaries are unhashable, and so is every
  \<^verbatim>\<open>PlayerId\<close>: the class defines \<^verbatim>\<open>__eq__\<close> and no \<^verbatim>\<open>__hash__\<close>, and Python sets
  \<^verbatim>\<open>__hash__\<close> to \<^verbatim>\<open>None\<close> in the body of such a class.
\<close>

fun hashable :: "pyval \<Rightarrow> bool" where
  "hashable (PList _) = False"
| "hashable (PDict _) = False"
| "hashable (PlayerId_obj _) = False"
| "hashable _ = True"

text \<open>\<^verbatim>\<open>d[key] = value\<close> on the items of a dictionary: \<^verbatim>\<open>TypeError\<close> for an unhashable
  key, otherwise the entry is replaced in place or appended. (Keys are compared as
  values, which is Python's equality on strings; the decoder stores under a \<^verbatim>\<open>PlayerId\<close>
  only.)\<close>

definition dict_setitem ::
  "(pyval \<times> pyval) list \<Rightarrow> pyval \<Rightarrow> pyval \<Rightarrow> error + (pyval \<times> pyval) list" where
  "dict_setitem items key v =
     (if hashable key then Inr (AList.update key v items) else Inl TypeError)"

text \<open>\<^verbatim>\<open>data.pop(key)\<close> for a string key: on a dictionary the value, and the dictionary
  without the key, or \<^verbatim>\<open>KeyError\<close>; \<^verbatim>\<open>list.pop\<close> wants an integer; the other values
  have no attribute \<^verbatim>\<open>pop\<close>.\<close>

definition pop :: "pyval \<Rightarrow> string \<Rightarrow> error + pyval \<times> pyval" where
  "pop data key =
     (case data of
        PDict items \<Rightarrow>
          (case map_of items (PStr key) of
             None \<Rightarrow> Inl KeyError
           | Some v \<Rightarrow> Inr (v, PDict (AList.delete (PStr key) items)))
      | PList _ \<Rightarrow> Inl TypeError
      | _ \<Rightarrow> Inl AttributeError)"

section \<open>util.py\<close>

text \<open>The \<^verbatim>\<open>assert\<close> statements are executed: the interpreter does not run with
  \<^verbatim>\<open>-O\<close>. A failed one raises \<^verbatim>\<open>AssertionError\<close>.\<close>

definition assert_type :: "pyval \<Rightarrow> pyclass \<Rightarrow> bool \<Rightarrow> error + unit" where
  "assert_type v typ null_ok =
     (if null_ok \<and> v = PNone then Inr () else py_assert (isinstance v typ))"

definition assert_int_nonneg :: "pyval \<Rightarrow> bool \<Rightarrow> error + unit" where
  "assert_int_nonneg v null_ok =
     (if null_ok \<and> v = PNone then Inr ()
      else py_assert (isinstance v C_int \<and> int_of v \<ge> 0))"

section \<open>state.py\<close>

subsection \<open>PlayerId\<close>

text \<open>
  \<^verbatim>\<open>uuid.UUID\<close> belongs to the standard library, not to the repository, so the model takes
  it as a parameter \<open>U\<close>: the function from the constructor's argument to the 128-bit
  number of the identifier, or to the exception raised. Every statement below holds for
  any such function.
\<close>

definition PlayerId_init :: "(pyval \<Rightarrow> error + uuid) \<Rightarrow> pyval \<Rightarrow> error + pyval" where
  "PlayerId_init U uuid_str = bind (U uuid_str) (\<lambda>u. Inr (PlayerId_obj u))"

text \<open>\<^verbatim>\<open>PlayerId.__eq__\<close>\<close>

definition PlayerId_eq :: "pyval \<Rightarrow> pyval \<Rightarrow> bool" where
  "PlayerId_eq self other =
     (case (self, other) of (PlayerId_obj u, PlayerId_obj u') \<Rightarrow> u = u' | _ \<Rightarrow> False)"

text \<open>The module constant \<^verbatim>\<open>PlayerId("12345678-1234-5678-1234-567812345678")\<close>.\<close>

definition FAKE_PLAYER_ID :: pyval where
  "FAKE_PLAYER_ID = PlayerId_obj 0x12345678123456781234567812345678"

subsection \<open>Suit and Card\<close>

text \<open>\<^verbatim>\<open>Suit(value)\<close>: the member with that value, or \<^verbatim>\<open>ValueError\<close>.\<close>

definition Suit_init :: "pyval \<Rightarrow> error + Suit" where
  "Suit_init v =
     (if v = PStr ''h'' then Inr HEARTS
      else if v = PStr ''d'' then Inr DIAMONDS
      else if v = PStr ''s'' then Inr SPADES
      else if v = PStr ''c'' then Inr CLUBS
      else Inl ValueError)"

fun Suit_value :: "Suit \<Rightarrow> string" where
  "Suit_value HEARTS = ''h''"
| "Suit_value DIAMONDS = ''d''"
| "Suit_value SPADES = ''s''"
| "Suit_value CLUBS = ''c''"

definition VALID_VALUES :: string where
  "VALID_VALUES = ''A23456789TJQK''"

text \<open>\<^verbatim>\<open>Card.__init__\<close>. The only field it assigns is \<^verbatim>\<open>_suit\<close>.\<close>

definition Card_init :: "pyval \<Rightarrow> error + pyval" where
  "Card_init rep =
     bind (assert_type rep C_str False) (\<lambda>_.
     bind (py_assert (length (str_of rep) = 2)) (\<lambda>_.
     bind (py_assert (str_of rep ! 0 \<in> set VALID_VALUES)) (\<lambda>_.
     bind (Suit_init (PStr [str_of rep ! 1])) (\<lambda>suit.
     Inr (Card_obj suit)))))"

subsection \<open>PlayerGameState\<close>

definition PlayerGameState_init ::
  "pyval \<Rightarrow> pyval \<Rightarrow> pyval \<Rightarrow> pyval \<Rightarrow> pyval \<Rightarrow> error + pyval" where
  "PlayerGameState_init cards folded stack bet pot_share =
     bind (assert_type cards C_list False) (\<lambda>_.
     bind (py_assert (length (list_of cards) = 2)) (\<lambda>_.
     bind (assert_type (list_of cards ! 0) C_Card True) (\<lambda>_.
     bind (assert_type (list_of cards ! 1) C_Card True) (\<lambda>_.
     bind (assert_type folded C_bool False) (\<lambda>_.
     bind (assert_int_nonneg stack False) (\<lambda>_.
     bind (assert_int_nonneg bet False) (\<lambda>_.
     bind (assert_int_nonneg pot_share False) (\<lambda>_.
     Inr (PlayerGameState_obj cards folded stack bet pot_share)))))))))"

text \<open>The comparisons \<^verbatim>\<open>x == n\<close> and \<^verbatim>\<open>x > n\<close> against an integer literal: numbers
  compare by value, any other value is unequal to a number, and ordering it against a
  number raises \<^verbatim>\<open>TypeError\<close>.\<close>

definition py_eq_int :: "pyval \<Rightarrow> int \<Rightarrow> bool" where
  "py_eq_int x n =
     (case x of
        PInt m \<Rightarrow> m = n
      | PBool b \<Rightarrow> (if b then 1 else 0) = n
      | PFloat r \<Rightarrow> r = of_int n
      | _ \<Rightarrow> False)"

definition py_gt_int :: "pyval \<Rightarrow> int \<Rightarrow> error + bool" where
  "py_gt_int x n =
     (case x of
        PInt m \<Rightarrow> Inr (m > n)
      | PBool b \<Rightarrow> Inr ((if b then 1 else 0) > n)
      | PFloat r \<Rightarrow> Inr (r > of_int n)
      | _ \<Rightarrow> Inl TypeError)"

text \<open>\<^verbatim>\<open>return self._stack == 0 and self._pot_share > 0\<close>\<close>

definition is_all_in :: "pyval \<Rightarrow> error + bool" where
  "is_all_in self =
     (case self of
        PlayerGameState_obj cards folded stack bet pot_share \<Rightarrow>
          if py_eq_int stack 0 then py_gt_int pot_share 0 else Inr False
      | _ \<Rightarrow> Inl AttributeError)"

subsection \<open>Pot\<close>

text \<open>\<^verbatim>\<open>Pot.__init__\<close>. \<^verbatim>\<open>next(iter(d))\<close> is the first key of a non-empty dictionary,
  \<^verbatim>\<open>next(iter(d.values()))\<close> its first value; the field receives \<^verbatim>\<open>dict(player_shares)\<close>,
  a new dictionary with the same items.\<close>

definition Pot_init :: "pyval \<Rightarrow> pyval \<Rightarrow> error + pyval" where
  "Pot_init amount player_shares =
     bind (assert_int_nonneg amount False) (\<lambda>_.
     bind (assert_type player_shares C_dict False) (\<lambda>_.
     bind (if items_of player_shares \<noteq> [] then
             bind (assert_type (fst (hd (items_of player_shares))) C_PlayerId False) (\<lambda>_.
             assert_int_nonneg (snd (hd (items_of player_shares))) False)
           else Inr ()) (\<lambda>_.
     Inr (Pot_obj amount (PDict (items_of player_shares))))))"

subsection \<open>SharedGameState\<close>

definition SharedGameState_init ::
  "pyval \<Rightarrow> pyval \<Rightarrow> pyval \<Rightarrow> pyval \<Rightarrow> pyval \<Rightarrow> error + pyval" where
  "SharedGameState_init pot_total pots board_cards small_blind big_blind =
     bind (assert_int_nonneg pot_total False) (\<lambda>_.
     bind (assert_type pots C_list False) (\<lambda>_.
     bind (py_assert (list_of pots \<noteq> [])) (\<lambda>_.
     bind (assert_type (list_of pots ! 0) C_Pot False) (\<lambda>_.
     bind (assert_type board_cards C_list False) (\<lambda>_.
     bind (py_assert (3 \<le> length (list_of board_cards) \<and> length (list_of board_cards) \<le> 5)) (\<lambda>_.
     bind (assert_type (list_of board_cards ! 0) C_Card False) (\<lambda>_.
     bind (assert_int_nonneg small_blind False) (\<lambda>_.
     bind (assert_int_nonneg big_blind False) (\<lambda>_.
     Inr (SharedGameState_obj pot_total pots board_cards small_blind big_blind))))))))))"

subsection \<open>GameState\<close>

definition GameState_init ::
  "pyval \<Rightarrow> pyval \<Rightarrow> pyval \<Rightarrow> pyval \<Rightarrow> pyval \<Rightarrow> pyval \<Rightarrow> error + pyval" where
  "GameState_init shared_state player_states dealer_player small_blind_player
       big_blind_player active_player =
     bind (assert_type shared_state C_SharedGameState False) (\<lambda>_.
     bind (assert_type player_states C_dict False) (\<lambda>_.
     bind (if items_of player_states \<noteq> [] then
             bind (assert_type (fst (hd (items_of player_states))) C_PlayerId False) (\<lambda>_.
             assert_type (snd (hd (items_of player_states))) C_PlayerGameState False)
           else Inr ()) (\<lambda>_.
     bind (assert_type dealer_player C_PlayerId False) (\<lambda>_.
     bind (assert_type small_blind_player C_PlayerId False) (\<lambda>_.
     bind (assert_type big_blind_player C_PlayerId False) (\<lambda>_.
     bind (assert_type active_player C_PlayerId True) (\<lambda>_.
     Inr (GameState_obj shared_state player_states dealer_player small_blind_player
            big_blind_player active_player))))))))"

section \<open>message.py\<close>

text \<open>\<^verbatim>\<open>ActionType(value)\<close>: the enumeration has the single member \<^verbatim>\<open>TODO = ""\<close>.\<close>

definition ActionType_init :: "pyval \<Rightarrow> error + pyval" where
  "ActionType_init v = (if v = PStr [] then Inr (ActionType_obj TODO) else Inl ValueError)"

definition GameStateMessage_init :: "pyval \<Rightarrow> pyval \<Rightarrow> pyval \<Rightarrow> error + pyval" where
  "GameStateMessage_init action_type game_state action_requested =
     bind (assert_type action_type C_ActionType False) (\<lambda>_.
     bind (assert_type game_state C_GameState False) (\<lambda>_.
     bind (assert_type action_requested C_bool False) (\<lambda>_.
     Inr (GameStateMessage_obj action_type game_state action_requested))))"

section \<open>net.py\<close>

subsection \<open>The decoder\<close>

text \<open>\<^verbatim>\<open>[Card(card) for card in specs]\<close>, which occurs for the hole cards and for the
  community cards.\<close>

definition cards_of :: "pyval \<Rightarrow> error + pyval list" where
  "cards_of specs = bind (iterate specs) (map_result Card_init)"

text \<open>The body of the loop over \<^verbatim>\<open>json["players"]\<close> up to the construction of the
  \<^verbatim>\<open>PlayerGameState\<close>: the pair that the last statement of the body stores.\<close>

definition player_entry ::
  "(pyval \<Rightarrow> error + uuid) \<Rightarrow> pyval \<Rightarrow> pyval \<Rightarrow> error + pyval \<times> pyval" where
  "player_entry U json player_spec =
     bind (getitem player_spec ''id'') (\<lambda>id_str.
     bind (PlayerId_init U id_str) (\<lambda>player_id.
     bind (getitem json ''holeCards'') (\<lambda>card_specs.
     bind (if card_specs \<noteq> PNone then cards_of card_specs else Inr [PNone, PNone])
       (\<lambda>player_cards.
     bind (getitem json ''folded'') (\<lambda>folded.
     bind (getitem json ''stack'') (\<lambda>stack.
     bind (getitem json ''bet'') (\<lambda>bet.
     bind (getitem json ''pot_share'') (\<lambda>pot_share.
     bind (PlayerGameState_init (PList player_cards) folded stack bet pot_share) (\<lambda>state.
     Inr (player_id, state))))))))))"

text \<open>The loop itself: each round ends with \<^verbatim>\<open>player_states[player_id] = ...\<close>.\<close>

fun players_loop ::
  "(pyval \<Rightarrow> error + uuid) \<Rightarrow> pyval \<Rightarrow> pyval list \<Rightarrow> (pyval \<times> pyval) list
     \<Rightarrow> error + (pyval \<times> pyval) list" where
  "players_loop U json [] player_states = Inr player_states"
| "players_loop U json (player_spec # rest) player_states =
     bind (player_entry U json player_spec) (\<lambda>entry.
     bind (dict_setitem player_states (fst entry) (snd entry)) (\<lambda>player_states'.
     players_loop U json rest player_states'))"

definition parse_game_state :: "(pyval \<Rightarrow> error + uuid) \<Rightarrow> pyval \<Rightarrow> error + pyval" where
  "parse_game_state U json =
     bind (getitem json ''players'') (\<lambda>players.
     bind (iterate players) (\<lambda>player_specs.
     bind (players_loop U json player_specs []) (\<lambda>player_states.
     bind (getitem json ''pot'') (\<lambda>pot_total.
     bind (getitem json ''pot'') (\<lambda>amount.
     bind (Pot_init amount (PDict [])) (\<lambda>pot.
     bind (getitem json ''communityCards'') (\<lambda>community.
     bind (cards_of community) (\<lambda>board_cards.
     bind (getitem json ''smallBlindAmount'') (\<lambda>small_blind.
     bind (getitem json ''bigBlindAmount'') (\<lambda>big_blind.
     bind (SharedGameState_init pot_total (PList [pot]) (PList board_cards)
             small_blind big_blind) (\<lambda>shared_state.
     bind (getitem json ''activeplayerId'') (\<lambda>active_id.
     bind (PlayerId_init U active_id) (\<lambda>active_player.
     GameState_init shared_state (PDict player_states) FAKE_PLAYER_ID FAKE_PLAYER_ID
       FAKE_PLAYER_ID active_player)))))))))))))"

definition parse_game_state_message ::
  "(pyval \<Rightarrow> error + uuid) \<Rightarrow> pyval \<Rightarrow> error + pyval" where
  "parse_game_state_message U json =
     bind (getitem json ''action'') (\<lambda>action.
     bind (ActionType_init action) (\<lambda>action_type.
     bind (getitem json ''game_state'') (\<lambda>state_json.
     bind (parse_game_state U state_json) (\<lambda>game_state.
     bind (getitem json ''actionRequested'') (\<lambda>action_requested.
     GameStateMessage_init action_type game_state action_requested)))))"

subsection \<open>The dispatch loop\<close>

text \<open>
  What \<^verbatim>\<open>do_client\<close> can be observed to do: the bodies it printed, the warnings it
  logged (the two arguments of the format string: the event and the rest of the payload)
  and the state of the bot. The class \<^verbatim>\<open>Bot\<close> is imported from a module that the
  repository does not contain, and \<^verbatim>\<open>json.loads\<close> is the standard library's, so both are
  parameters: \<open>handle\<close> takes the bot and a message to the bot afterwards or to an
  exception, \<open>loads\<close> takes a body to the decoded value or to an exception.
\<close>

record ('b, 'm) client =
  bot :: 'b
  printed :: "'m list"
  warnings :: "(pyval \<times> pyval) list"

text \<open>One round of the \<^verbatim>\<open>while True\<close> loop after \<^verbatim>\<open>ws.recv()\<close> has returned \<open>body\<close>:
  the client afterwards, and the exception if the round raised one.\<close>

definition on_body ::
  "(pyval \<Rightarrow> error + uuid) \<Rightarrow> ('m \<Rightarrow> error + pyval) \<Rightarrow> ('b \<Rightarrow> pyval \<Rightarrow> error + 'b)
     \<Rightarrow> ('b, 'm) client \<Rightarrow> 'm \<Rightarrow> ('b, 'm) client \<times> error option" where
  "on_body U loads handle c body =
     (let c1 = c\<lparr>printed := printed c @ [body]\<rparr> in
      case loads body of
        Inl e \<Rightarrow> (c1, Some e)
      | Inr data \<Rightarrow>
          (case pop data ''event'' of
             Inl e \<Rightarrow> (c1, Some e)
           | Inr (event, data') \<Rightarrow>
               if event = PStr ''gameState'' then
                 (case parse_game_state_message U data' of
                    Inl e \<Rightarrow> (c1, Some e)
                  | Inr message \<Rightarrow>
                      (case handle (bot c1) message of
                         Inl e \<Rightarrow> (c1, Some e)
                       | Inr b \<Rightarrow> (c1\<lparr>bot := b\<rparr>, None)))
               else (c1\<lparr>warnings := warnings c1 @ [(event, data')]\<rparr>, None)))"

text \<open>The loop over the bodies that arrive before the connection closes, when
  \<^verbatim>\<open>ws.recv()\<close> raises. The loop has no other exit, so its result is the client at the
  end and the exception that ended it.\<close>

fun do_client ::
  "(pyval \<Rightarrow> error + uuid) \<Rightarrow> ('m \<Rightarrow> error + pyval) \<Rightarrow> ('b \<Rightarrow> pyval \<Rightarrow> error + 'b)
     \<Rightarrow> ('b, 'm) client \<Rightarrow> 'm list \<Rightarrow> ('b, 'm) client \<times> error" where
  "do_client U loads handle c [] = (c, ConnectionClosed)"
| "do_client U loads handle c (body # rest) =
     (case on_body U loads handle c body of
        (c', Some e) \<Rightarrow> (c', e)
      | (c', None) \<Rightarrow> do_client U loads handle c' rest)"

section \<open>Aliasing of the card list\<close>

text \<open>
  \<^verbatim>\<open>PlayerGameState.__init__\<close> assigns \<^verbatim>\<open>self._cards = cards\<close>: the object keeps the
  caller's list, not a copy of it. To follow that, list objects live in a store of cells,
  a variable or field holds the address of its list, and \<open>fresh\<close> is the next unused
  address.
\<close>

record store =
  cell :: "nat \<Rightarrow> pyval list"
  fresh :: nat

text \<open>A list display \<^verbatim>\<open>[x, y, ...]\<close> and \<^verbatim>\<open>list(xs)\<close> both make a new list object.\<close>

definition new_list :: "store \<Rightarrow> pyval list \<Rightarrow> store \<times> nat" where
  "new_list s xs = (s\<lparr>cell := (cell s)(fresh s := xs), fresh := Suc (fresh s)\<rparr>, fresh s)"

definition list_copy :: "store \<Rightarrow> nat \<Rightarrow> store \<times> nat" where
  "list_copy s a = new_list s (cell s a)"

text \<open>\<^verbatim>\<open>xs[i] = v\<close> for a natural index.\<close>

definition list_setitem :: "store \<Rightarrow> nat \<Rightarrow> nat \<Rightarrow> pyval \<Rightarrow> error + store" where
  "list_setitem s a i v =
     (if i < length (cell s a) then Inr (s\<lparr>cell := (cell s)(a := (cell s a)[i := v])\<rparr>)
      else Inl IndexError)"

record PlayerGameState_ref =
  cards_at :: nat
  folded_of :: pyval
  stack_of :: pyval
  bet_of :: pyval
  pot_share_of :: pyval

text \<open>The constructor validates the list as it is when the call is made and keeps its
  address.\<close>

definition PlayerGameState_new ::
  "store \<Rightarrow> nat \<Rightarrow> pyval \<Rightarrow> pyval \<Rightarrow> pyval \<Rightarrow> pyval \<Rightarrow> error + PlayerGameState_ref" where
  "PlayerGameState_new s cards folded stack bet pot_share =
     bind (PlayerGameState_init (PList (cell s cards)) folded stack bet pot_share) (\<lambda>_.
     Inr \<lparr>cards_at = cards, folded_of = folded, stack_of = stack, bet_of = bet,
          pot_share_of = pot_share\<rparr>)"

text \<open>\<^verbatim>\<open>return list(self._cards)\<close>\<close>

definition get_cards :: "store \<Rightarrow> PlayerGameState_ref \<Rightarrow> store \<times> nat" where
  "get_cards s self = list_copy s (cards_at self)"

section \<open>A reader of hexadecimal identifiers\<close>

text \<open>
  An instance for the parameter \<open>U\<close>, on which the statements below are exercised: it
  drops hyphens and reads 32 hexadecimal digits, and where it succeeds \<^verbatim>\<open>uuid.UUID\<close>
  succeeds with the same number.
\<close>

definition hex_digit :: "char \<Rightarrow> nat option" where
  "hex_digit c =
     (let n = (of_char c :: nat) in
      if 48 \<le> n \<and> n \<le> 57 then Some (n - 48)
      else if 97 \<le> n \<and> n \<le> 102 then Some (n - 87)
      else if 65 \<le> n \<and> n \<le> 70 then Some (n - 55)
      else None)"

fun hex_value :: "nat \<Rightarrow> string \<Rightarrow> nat option" where
  "hex_value acc [] = Some acc"
| "hex_value acc (c # cs) =
     (case hex_digit c of None \<Rightarrow> None | Some d \<Rightarrow> hex_value (16 * acc + d) cs)"

definition UUID_hex :: "pyval \<Rightarrow> error + uuid" where
  "UUID_hex v =
     (case v of
        PNone \<Rightarrow> Inl TypeError
      | PStr s \<Rightarrow>
          (let h = filter (\<lambda>c. c \<noteq> CHR ''-'') s in
           if length h \<noteq> 32 then Inl ValueError
           else (case hex_value 0 h of None \<Rightarrow> Inl ValueError | Some n \<Rightarrow> Inr (int n)))
      | _ \<Rightarrow> Inl AttributeError)"

section \<open>Payloads\<close>

text \<open>
  The state-sync payload of the specification's scenario, after \<^verbatim>\<open>do_client\<close> has
  popped the key \<^verbatim>\<open>event\<close>; \<open>u\<close> is the text of the player's identifier.
\<close>

definition game_state_json :: "string \<Rightarrow> pyval" where
  "game_state_json u = PDict
     [(PStr ''players'', PList [PDict [(PStr ''id'', PStr u)]]),
      (PStr ''holeCards'', PNone),
      (PStr ''folded'', PBool False),
      (PStr ''stack'', PInt 100),
      (PStr ''bet'', PInt 0),
      (PStr ''pot_share'', PInt 0),
      (PStr ''pot'', PInt 0),
      (PStr ''communityCards'', PList [PStr ''Ah'', PStr ''Kd'', PStr ''2s'']),
      (PStr ''smallBlindAmount'', PInt 1),
      (PStr ''bigBlindAmount'', PInt 2),
      (PStr ''activeplayerId'', PStr u)]"

definition scenario :: "string \<Rightarrow> pyval" where
  "scenario u = PDict
     [(PStr ''action'', PStr []),
      (PStr ''actionRequested'', PBool True),
      (PStr ''game_state'', game_state_json u)]"






text \<open>A caller's list \<^verbatim>\<open>cards = [None, None]\<close> in an otherwise empty store.\<close>

definition caller_store :: store where
  "caller_store = fst (new_list \<lparr>cell = (\<lambda>_. []), fresh = 0\<rparr> [PNone, PNone])"

definition caller_cards :: nat where
  "caller_cards = snd (new_list \<lparr>cell = (\<lambda>_. []), fresh = 0\<rparr> [PNone, PNone])"

section \<open>Rules for results and assertions\<close>

lemma bind_Inl [simp]: "bind (Inl e) f = Inl e"
  by (simp add: bind_def)

lemma bind_Inr [simp]: "bind (Inr x) f = f x"
  by (simp add: bind_def)

lemma bind_eq_Inr: "bind m f = Inr y \<longleftrightarrow> (\<exists>x. m = Inr x \<and> f x = Inr y)"
  by (cases m) simp_all

lemma py_assert_eq_Inr [simp]: "py_assert b = Inr u \<longleftrightarrow> b"
  by (simp add: py_assert_def)

lemma assert_type_eq_Inr [simp]:
  "assert_type v c n = Inr u \<longleftrightarrow> (n \<and> v = PNone) \<or> isinstance v c"
  by (auto simp: assert_type_def)

lemma assert_int_nonneg_eq_Inr [simp]:
  "assert_int_nonneg v n = Inr u \<longleftrightarrow> (n \<and> v = PNone) \<or> (isinstance v C_int \<and> 0 \<le> int_of v)"
  by (auto simp: assert_int_nonneg_def)

lemma py_assert_Inl: "py_assert b = Inl e \<Longrightarrow> e = AssertionError"
  by (auto simp: py_assert_def split: if_splits)

lemma assert_type_Inl: "assert_type v c n = Inl e \<Longrightarrow> e = AssertionError"
  by (auto simp: assert_type_def dest: py_assert_Inl split: if_splits)

lemma assert_int_nonneg_Inl: "assert_int_nonneg v n = Inl e \<Longrightarrow> e = AssertionError"
  by (auto simp: assert_int_nonneg_def dest: py_assert_Inl split: if_splits)

lemma bind_eq_Inl: "bind m f = Inl e \<longleftrightarrow> m = Inl e \<or> (\<exists>x. m = Inr x \<and> f x = Inl e)"
  by (cases m) simp_all

lemma isinstance_simps [simp]:
  "isinstance (PInt n) C_int" "isinstance (PBool b) C_int" "isinstance (PBool b) C_bool"
  "isinstance (PStr s) C_str" "isinstance (PList xs) C_list" "isinstance (PDict d) C_dict"
  "isinstance (Card_obj su) C_Card" "isinstance (PlayerId_obj u) C_PlayerId"
  "isinstance (Pot_obj v1 v2) C_Pot"
  "isinstance (ActionType_obj a) C_ActionType"
  "isinstance (PlayerGameState_obj v3 v4 v5 v6 v7) C_PlayerGameState"
  "isinstance (SharedGameState_obj w1 w2 w3 w4 w5) C_SharedGameState"
  "isinstance (GameState_obj x1 x2 x3 x4 x5 x6) C_GameState"
  by (simp_all add: isinstance_def)

lemma isinstance_PNone [simp]: "isinstance PNone c \<longleftrightarrow> c = C_NoneType"
  by (auto simp: isinstance_def)

section \<open>PlayerGameState: validation and the all-in test\<close>

lemma PlayerGameState_init_Inl:
  "PlayerGameState_init cards folded stack bet pot_share = Inl e \<Longrightarrow> e = AssertionError"
  unfolding PlayerGameState_init_def bind_eq_Inl
  by (auto dest: py_assert_Inl assert_type_Inl assert_int_nonneg_Inl)

lemma PlayerGameState_init_eq_Inr:
  "PlayerGameState_init cards folded stack bet pot_share = Inr p \<longleftrightarrow>
     isinstance cards C_list \<and> length (list_of cards) = 2
     \<and> (list_of cards ! 0 = PNone \<or> isinstance (list_of cards ! 0) C_Card)
     \<and> (list_of cards ! 1 = PNone \<or> isinstance (list_of cards ! 1) C_Card)
     \<and> isinstance folded C_bool
     \<and> isinstance stack C_int \<and> 0 \<le> int_of stack
     \<and> isinstance bet C_int \<and> 0 \<le> int_of bet
     \<and> isinstance pot_share C_int \<and> 0 \<le> int_of pot_share
     \<and> p = PlayerGameState_obj cards folded stack bet pot_share"
  unfolding PlayerGameState_init_def bind_eq_Inr by auto

lemma is_int_cases: "isinstance v C_int \<Longrightarrow> (\<exists>n. v = PInt n) \<or> (\<exists>b. v = PBool b)"
  by (cases v) (auto simp: isinstance_def)

lemma is_all_in_constructed:
  assumes "PlayerGameState_init cards folded stack bet pot_share = Inr p"
  shows "is_all_in p = Inr (int_of stack = 0 \<and> 0 < int_of pot_share)"
proof -
  from assms have p: "p = PlayerGameState_obj cards folded stack bet pot_share"
    and s: "isinstance stack C_int" and q: "isinstance pot_share C_int"
    by (simp_all add: PlayerGameState_init_eq_Inr)
  from is_int_cases [OF s] is_int_cases [OF q] show ?thesis
    by (auto simp: p is_all_in_def py_eq_int_def py_gt_int_def)
qed

text \<open>
  Claim C8. A \<^verbatim>\<open>PlayerGameState\<close> with stack \<open>-1\<close> is rejected; with the other fields
  valid, stack 0 and pot share 0 construct a state that is not all-in, stack 0 and pot
  share 5 one that is all-in; and for every state that the constructor returns,
  \<^verbatim>\<open>is_all_in\<close> is true exactly when the stack is zero and the pot share is positive.
\<close>

theorem PlayerGameState_stack_and_all_in:
  assumes "c0 = PNone \<or> isinstance c0 C_Card" and "c1 = PNone \<or> isinstance c1 C_Card"
    and "isinstance folded C_bool" and "isinstance bet C_int" and "0 \<le> int_of bet"
  shows "PlayerGameState_init (PList [c0, c1]) folded (PInt (- 1)) bet pot_share
           = Inl AssertionError
       \<and> (\<exists>p. PlayerGameState_init (PList [c0, c1]) folded (PInt 0) bet (PInt 0) = Inr p
              \<and> is_all_in p = Inr False)
       \<and> (\<exists>p. PlayerGameState_init (PList [c0, c1]) folded (PInt 0) bet (PInt 5) = Inr p
              \<and> is_all_in p = Inr True)
       \<and> (\<forall>cards' folded' stack' bet' pot_share' p.
             PlayerGameState_init cards' folded' stack' bet' pot_share' = Inr p \<longrightarrow>
             is_all_in p = Inr (int_of stack' = 0 \<and> 0 < int_of pot_share'))"
proof (intro conjI allI impI)
  show "PlayerGameState_init (PList [c0, c1]) folded (PInt (- 1)) bet pot_share
          = Inl AssertionError"
  proof (cases "PlayerGameState_init (PList [c0, c1]) folded (PInt (- 1)) bet pot_share")
    case (Inl e)
    then show ?thesis by (simp add: PlayerGameState_init_Inl)
  next
    case (Inr p)
    then show ?thesis by (simp add: PlayerGameState_init_eq_Inr)
  qed
next
  have "PlayerGameState_init (PList [c0, c1]) folded (PInt 0) bet (PInt 0)
      = Inr (PlayerGameState_obj (PList [c0, c1]) folded (PInt 0) bet (PInt 0))"
    using assms by (simp add: PlayerGameState_init_eq_Inr)
  then show "\<exists>p. PlayerGameState_init (PList [c0, c1]) folded (PInt 0) bet (PInt 0) = Inr p
              \<and> is_all_in p = Inr False"
    by (simp add: is_all_in_def py_eq_int_def py_gt_int_def)
next
  have "PlayerGameState_init (PList [c0, c1]) folded (PInt 0) bet (PInt 5)
      = Inr (PlayerGameState_obj (PList [c0, c1]) folded (PInt 0) bet (PInt 5))"
    using assms by (simp add: PlayerGameState_init_eq_Inr)
  then show "\<exists>p. PlayerGameState_init (PList [c0, c1]) folded (PInt 0) bet (PInt 5) = Inr p
              \<and> is_all_in p = Inr True"
    by (simp add: is_all_in_def py_eq_int_def py_gt_int_def)
next
  fix cards' folded' stack' bet' pot_share' p
  assume "PlayerGameState_init cards' folded' stack' bet' pot_share' = Inr p"
  then show "is_all_in p = Inr (int_of stack' = 0 \<and> 0 < int_of pot_share')"
    by (rule is_all_in_constructed)
qed

theorem PlayerGameState_stack_and_all_in_witness:
  "PlayerGameState_init (PList [PNone, Card_obj SPADES]) (PBool False) (PInt (- 1)) (PInt 3)
       (PInt 0) = Inl AssertionError
   \<and> (\<exists>p. PlayerGameState_init (PList [PNone, Card_obj SPADES]) (PBool False) (PInt 0)
            (PInt 3) (PInt 0) = Inr p \<and> is_all_in p = Inr False)
   \<and> (\<exists>p. PlayerGameState_init (PList [PNone, Card_obj SPADES]) (PBool False) (PInt 0)
            (PInt 3) (PInt 5) = Inr p \<and> is_all_in p = Inr True)"
proof -
  have c0: "PNone = PNone \<or> isinstance PNone C_Card" by simp
  have c1: "Card_obj SPADES = PNone \<or> isinstance (Card_obj SPADES) C_Card" by simp
  have f: "isinstance (PBool False) C_bool" by simp
  have b: "isinstance (PInt 3) C_int" and b0: "0 \<le> int_of (PInt 3)" by simp_all
  from PlayerGameState_stack_and_all_in [OF c0 c1 f b b0, of "PInt 0"]
  show ?thesis by blast
qed

section \<open>Card: which codes are accepted\<close>

lemma Suit_init_eq_Inr:
  "Suit_init (PStr [s]) = Inr suit \<longleftrightarrow> s \<in> set ''hdsc'' \<and> Suit_value suit = [s]"
  by (cases suit) (auto simp: Suit_init_def)

lemma Card_init_eq_Inr:
  "Card_init rep = Inr c \<longleftrightarrow>
     (\<exists>r s suit. rep = PStr [r, s] \<and> r \<in> set VALID_VALUES
        \<and> Suit_init (PStr [s]) = Inr suit \<and> c = Card_obj suit)"
proof (cases rep)
  case (PStr str)
  have "length str = 2 \<longleftrightarrow> (\<exists>r s. str = [r, s])"
    by (cases str; cases "tl str"; cases "tl (tl str)") auto
  then show ?thesis
    by (auto simp: PStr Card_init_def bind_eq_Inr)
qed (simp_all add: Card_init_def bind_eq_Inr isinstance_def)

text \<open>
  Claim C3, as amended. \<^verbatim>\<open>Card(rep)\<close> succeeds exactly when \<open>rep\<close> is a string of two
  characters, a rank of \<^verbatim>\<open>A23456789TJQK\<close> followed by a suit of \<^verbatim>\<open>h\<close>, \<^verbatim>\<open>d\<close>,
  \<^verbatim>\<open>s\<close>, \<^verbatim>\<open>c\<close>, and the card then holds the suit whose value is the second character;
  every other argument is rejected.
\<close>

theorem Card_init_valid_codes:
  "((\<exists>c. Card_init rep = Inr c) \<longleftrightarrow>
      (\<exists>r s. rep = PStr [r, s] \<and> r \<in> set ''A23456789TJQK'' \<and> s \<in> set ''hdsc''))
   \<and> (\<forall>r s c. Card_init (PStr [r, s]) = Inr c \<longrightarrow>
         (\<exists>suit. c = Card_obj suit \<and> Suit_value suit = [s]))"
proof -
  have "\<exists>suit. Suit_value suit = [s]" if "s \<in> set ''hdsc''" for s
  proof -
    from that consider "s = CHR ''h''" | "s = CHR ''d''" | "s = CHR ''s''" | "s = CHR ''c''"
      by auto
    then show ?thesis
    proof cases
      case 1 then show ?thesis by (intro exI [of _ HEARTS]) simp
    next
      case 2 then show ?thesis by (intro exI [of _ DIAMONDS]) simp
    next
      case 3 then show ?thesis by (intro exI [of _ SPADES]) simp
    next
      case 4 then show ?thesis by (intro exI [of _ CLUBS]) simp
    qed
  qed
  then show ?thesis
    unfolding Card_init_eq_Inr Suit_init_eq_Inr VALID_VALUES_def by blast
qed

theorem Card_init_valid_codes_witness:
  "(\<exists>c. Card_init (PStr ''Td'') = Inr c)
   \<and> \<not> (\<exists>c. Card_init (PStr ''1h'') = Inr c)
   \<and> \<not> (\<exists>c. Card_init (PStr ''Ax'') = Inr c)
   \<and> \<not> (\<exists>c. Card_init (PStr ''Ahh'') = Inr c)
   \<and> \<not> (\<exists>c. Card_init (PInt 7) = Inr c)"
  using Card_init_valid_codes [of "PStr ''Td''"] Card_init_valid_codes [of "PStr ''1h''"]
    Card_init_valid_codes [of "PStr ''Ax''"] Card_init_valid_codes [of "PStr ''Ahh''"]
    Card_init_valid_codes [of "PInt 7"]
  by simp

text \<open>
  Claim C3 as stated asks that the code can be rebuilt from the card. The cards made from
  the distinct codes \<^verbatim>\<open>Ah\<close> and \<^verbatim>\<open>Kh\<close> are equal in every field, so no re-encoding
  of a card can return both codes.
\<close>

theorem Card_rank_not_kept:
  "Card_init (PStr ''Ah'') = Inr (Card_obj HEARTS)
   \<and> Card_init (PStr ''Kh'') = Inr (Card_obj HEARTS)
   \<and> ''Ah'' \<noteq> ''Kh''"
  by (simp add: Card_init_def Suit_init_def VALID_VALUES_def assert_type_def isinstance_def
      py_assert_def)

section \<open>Pot: what the constructor accepts\<close>

lemma Pot_init_eq_Inr:
  "Pot_init amount player_shares = Inr p \<longleftrightarrow>
     isinstance amount C_int \<and> 0 \<le> int_of amount \<and> isinstance player_shares C_dict
     \<and> (items_of player_shares \<noteq> [] \<longrightarrow>
          isinstance (fst (hd (items_of player_shares))) C_PlayerId
          \<and> isinstance (snd (hd (items_of player_shares))) C_int
          \<and> 0 \<le> int_of (snd (hd (items_of player_shares))))
     \<and> p = Pot_obj amount (PDict (items_of player_shares))"
  by (auto simp: Pot_init_def bind_eq_Inr split: if_splits)



lemma Pot_init_first_item_only:
  "Pot_init amount (PDict ((k, v) # rest)) = Inr p \<longleftrightarrow>
     isinstance amount C_int \<and> 0 \<le> int_of amount
     \<and> isinstance k C_PlayerId \<and> isinstance v C_int \<and> 0 \<le> int_of v
     \<and> p = Pot_obj amount (PDict ((k, v) # rest))"
  by (auto simp: Pot_init_eq_Inr)



section \<open>SharedGameState: the number of board cards\<close>

lemma SharedGameState_init_eq_Inr:
  "SharedGameState_init pot_total pots board_cards small_blind big_blind = Inr s \<longleftrightarrow>
     isinstance pot_total C_int \<and> 0 \<le> int_of pot_total
     \<and> isinstance pots C_list \<and> list_of pots \<noteq> [] \<and> isinstance (list_of pots ! 0) C_Pot
     \<and> isinstance board_cards C_list
     \<and> 3 \<le> length (list_of board_cards) \<and> length (list_of board_cards) \<le> 5
     \<and> isinstance (list_of board_cards ! 0) C_Card
     \<and> isinstance small_blind C_int \<and> 0 \<le> int_of small_blind
     \<and> isinstance big_blind C_int \<and> 0 \<le> int_of big_blind
     \<and> s = SharedGameState_obj pot_total pots board_cards small_blind big_blind"
  unfolding SharedGameState_init_def bind_eq_Inr by auto

lemma SharedGameState_init_Inl:
  "SharedGameState_init pot_total pots board_cards small_blind big_blind = Inl e
     \<Longrightarrow> e = AssertionError"
  unfolding SharedGameState_init_def bind_eq_Inl
  by (auto dest: py_assert_Inl assert_type_Inl assert_int_nonneg_Inl)

text \<open>
  Claim C7. With the other fields valid (a nonnegative total, a non-empty list of pots,
  a list of cards, nonnegative blinds), \<^verbatim>\<open>SharedGameState\<close> is constructed exactly when
  the board has 3, 4 or 5 cards, and is rejected for every other length.
\<close>

theorem SharedGameState_board_length:
  assumes "isinstance pot_total C_int" and "0 \<le> int_of pot_total"
    and "pots \<noteq> []" and "list_all (\<lambda>p. isinstance p C_Pot) pots"
    and "list_all (\<lambda>c. isinstance c C_Card) board"
    and "isinstance small_blind C_int" and "0 \<le> int_of small_blind"
    and "isinstance big_blind C_int" and "0 \<le> int_of big_blind"
  shows "SharedGameState_init pot_total (PList pots) (PList board) small_blind big_blind =
           (if 3 \<le> length board \<and> length board \<le> 5
            then Inr (SharedGameState_obj pot_total (PList pots) (PList board)
                        small_blind big_blind)
            else Inl AssertionError)"
proof (cases "3 \<le> length board \<and> length board \<le> 5")
  case True
  then have "board \<noteq> []" by auto
  with assms(5) have "isinstance (board ! 0) C_Card"
    by (cases board) simp_all
  moreover from assms(3,4) have "isinstance (pots ! 0) C_Pot"
    by (cases pots) simp_all
  ultimately show ?thesis
    using True assms by (simp add: SharedGameState_init_eq_Inr)
next
  case False
  show ?thesis
  proof (cases "SharedGameState_init pot_total (PList pots) (PList board) small_blind big_blind")
    case (Inl e)
    with False show ?thesis by (simp add: SharedGameState_init_Inl)
  next
    case (Inr s)
    with False show ?thesis by (simp add: SharedGameState_init_eq_Inr)
  qed
qed

theorem SharedGameState_board_length_witness:
  "SharedGameState_init (PInt 0) (PList [Pot_obj (PInt 0) (PDict [])])
      (PList [Card_obj HEARTS, Card_obj SPADES]) (PInt 1) (PInt 2) = Inl AssertionError
   \<and> SharedGameState_init (PInt 0) (PList [Pot_obj (PInt 0) (PDict [])])
      (PList [Card_obj HEARTS, Card_obj SPADES, Card_obj CLUBS]) (PInt 1) (PInt 2)
     = Inr (SharedGameState_obj (PInt 0) (PList [Pot_obj (PInt 0) (PDict [])])
        (PList [Card_obj HEARTS, Card_obj SPADES, Card_obj CLUBS]) (PInt 1) (PInt 2))
   \<and> SharedGameState_init (PInt 0) (PList [Pot_obj (PInt 0) (PDict [])]) (PList [])
      (PInt 1) (PInt 2) = Inl AssertionError"
proof -
  have t: "isinstance (PInt 0) C_int" "0 \<le> int_of (PInt 0)" by simp_all
  have p: "[Pot_obj (PInt 0) (PDict [])] \<noteq> []"
    "list_all (\<lambda>p. isinstance p C_Pot) [Pot_obj (PInt 0) (PDict [])]" by simp_all
  have s: "isinstance (PInt 1) C_int" "0 \<le> int_of (PInt 1)" by simp_all
  have b: "isinstance (PInt 2) C_int" "0 \<le> int_of (PInt 2)" by simp_all
  have c2: "list_all (\<lambda>c. isinstance c C_Card) [Card_obj HEARTS, Card_obj SPADES]"
    and c3: "list_all (\<lambda>c. isinstance c C_Card) [Card_obj HEARTS, Card_obj SPADES, Card_obj CLUBS]"
    and c0: "list_all (\<lambda>c. isinstance c C_Card) []" by simp_all
  from SharedGameState_board_length [OF t p c2 s b] SharedGameState_board_length [OF t p c3 s b]
    SharedGameState_board_length [OF t p c0 s b]
  show ?thesis by simp
qed

section \<open>The decoder: one round of the loop over the players\<close>

lemma player_entry_eq_Inr:
  "player_entry U json player_spec = Inr (i, s) \<longleftrightarrow>
     (\<exists>id_str u specs cs folded stack bet pot_share.
        getitem player_spec ''id'' = Inr id_str \<and> U id_str = Inr u \<and> i = PlayerId_obj u
        \<and> getitem json ''holeCards'' = Inr specs
        \<and> (if specs \<noteq> PNone then cards_of specs else Inr [PNone, PNone]) = Inr cs
        \<and> getitem json ''folded'' = Inr folded \<and> getitem json ''stack'' = Inr stack
        \<and> getitem json ''bet'' = Inr bet \<and> getitem json ''pot_share'' = Inr pot_share
        \<and> PlayerGameState_init (PList cs) folded stack bet pot_share = Inr s)"
  unfolding player_entry_def PlayerId_init_def bind_eq_Inr by (auto split del: if_split)


lemmas eval_defs = getitem_def iterate_def PlayerId_init_def PlayerGameState_init_def
  assert_type_def assert_int_nonneg_def isinstance_def py_assert_def dict_setitem_def
  ActionType_init_def cards_of_def Card_init_def Suit_init_def VALID_VALUES_def Pot_init_def
  SharedGameState_init_def GameState_init_def GameStateMessage_init_def FAKE_PLAYER_ID_def

lemma UUID_hex_fake:
  "UUID_hex (PStr ''12345678-1234-5678-1234-567812345678'')
     = Inr 0x12345678123456781234567812345678"
  by (simp add: UUID_hex_def hex_digit_def)


section \<open>The decoder on the scenario payload\<close>

text \<open>
  Claim C1 expects the scenario payload to decode. For every identifier text that
  \<^verbatim>\<open>UUID\<close> accepts, the first round of the loop builds the player's state with two
  unknown cards, the store \<^verbatim>\<open>player_states[player_id] = ...\<close> raises \<^verbatim>\<open>TypeError\<close> because
  a \<^verbatim>\<open>PlayerId\<close> is unhashable, and the exception leaves \<^verbatim>\<open>parse_game_state\<close> and
  \<^verbatim>\<open>parse_game_state_message\<close>.
\<close>

theorem scenario_decode_raises:
  assumes "U (PStr u) = Inr n"
  shows "player_entry U (game_state_json u) (PDict [(PStr ''id'', PStr u)])
           = Inr (PlayerId_obj n,
                  PlayerGameState_obj (PList [PNone, PNone]) (PBool False) (PInt 100)
                    (PInt 0) (PInt 0))
       \<and> dict_setitem [] (PlayerId_obj n)
           (PlayerGameState_obj (PList [PNone, PNone]) (PBool False) (PInt 100)
              (PInt 0) (PInt 0)) = Inl TypeError
       \<and> parse_game_state U (game_state_json u) = Inl TypeError
       \<and> parse_game_state_message U (scenario u) = Inl TypeError"
proof -
  have e: "player_entry U (game_state_json u) (PDict [(PStr ''id'', PStr u)])
           = Inr (PlayerId_obj n,
                  PlayerGameState_obj (PList [PNone, PNone]) (PBool False) (PInt 100)
                    (PInt 0) (PInt 0))"
    using assms by (simp add: player_entry_def game_state_json_def eval_defs)
  have d: "dict_setitem [] (PlayerId_obj n) st = Inl TypeError" for st
    by (simp add: dict_setitem_def)
  have "getitem (game_state_json u) ''players'' = Inr (PList [PDict [(PStr ''id'', PStr u)]])"
    by (simp add: game_state_json_def getitem_def)
  then have g: "parse_game_state U (game_state_json u) = Inl TypeError"
    by (simp add: parse_game_state_def iterate_def e d)
  have "getitem (scenario u) ''game_state'' = Inr (game_state_json u)"
    and "getitem (scenario u) ''action'' = Inr (PStr [])"
    by (simp_all add: scenario_def getitem_def)
  then have "parse_game_state_message U (scenario u) = Inl TypeError"
    by (simp add: parse_game_state_message_def ActionType_init_def g)
  with e d g show ?thesis by simp
qed

theorem scenario_decode_raises_witness:
  "parse_game_state_message UUID_hex (scenario ''12345678-1234-5678-1234-567812345678'')
     = Inl TypeError"
  using scenario_decode_raises [of UUID_hex, OF UUID_hex_fake] by simp

section \<open>The decoder: which payloads decode\<close>

lemma GameState_init_eq_Inr:
  "GameState_init shared_state player_states dealer sb bb active = Inr g \<longleftrightarrow>
     isinstance shared_state C_SharedGameState \<and> isinstance player_states C_dict
     \<and> (items_of player_states \<noteq> [] \<longrightarrow>
          isinstance (fst (hd (items_of player_states))) C_PlayerId
          \<and> isinstance (snd (hd (items_of player_states))) C_PlayerGameState)
     \<and> isinstance dealer C_PlayerId \<and> isinstance sb C_PlayerId \<and> isinstance bb C_PlayerId
     \<and> (active = PNone \<or> isinstance active C_PlayerId)
     \<and> g = GameState_obj shared_state player_states dealer sb bb active"
  by (auto simp: GameState_init_def bind_eq_Inr split: if_splits)



lemma player_entry_unhashable:
  assumes "player_entry U json player_spec = Inr entry"
  shows "\<not> hashable (fst entry)"
proof -
  obtain i s where "entry = (i, s)" by (cases entry)
  with assms show ?thesis by (auto simp: player_entry_eq_Inr)
qed

lemma players_loop_eq_Inr:
  "players_loop U json player_specs player_states = Inr d \<longleftrightarrow>
     player_specs = [] \<and> d = player_states"
proof (cases player_specs)
  case Nil
  then show ?thesis by auto
next
  case (Cons player_spec rest)
  have "players_loop U json (player_spec # rest) player_states \<noteq> Inr d"
    by (auto simp: bind_eq_Inr dict_setitem_def dest: player_entry_unhashable)
  with Cons show ?thesis by simp
qed

lemma parse_game_state_eq_Inr:
  "parse_game_state U json = Inr g \<longleftrightarrow>
     (\<exists>players pot p community cards small_blind big_blind shared active_id u.
        getitem json ''players'' = Inr players \<and> iterate players = Inr []
        \<and> getitem json ''pot'' = Inr pot \<and> Pot_init pot (PDict []) = Inr p
        \<and> getitem json ''communityCards'' = Inr community \<and> cards_of community = Inr cards
        \<and> getitem json ''smallBlindAmount'' = Inr small_blind
        \<and> getitem json ''bigBlindAmount'' = Inr big_blind
        \<and> SharedGameState_init pot (PList [p]) (PList cards) small_blind big_blind = Inr shared
        \<and> getitem json ''activeplayerId'' = Inr active_id \<and> U active_id = Inr u
        \<and> GameState_init shared (PDict []) FAKE_PLAYER_ID FAKE_PLAYER_ID FAKE_PLAYER_ID
             (PlayerId_obj u) = Inr g)"
  unfolding parse_game_state_def PlayerId_init_def bind_eq_Inr players_loop_eq_Inr by auto


lemma parse_game_state_no_player_states:
  "parse_game_state U json = Inr g \<Longrightarrow> gs_player_states g = PDict []"
  by (auto simp: parse_game_state_eq_Inr GameState_init_eq_Inr)

lemma FAKE_PLAYER_ID_eq:
  "PlayerId_init UUID_hex (PStr ''12345678-1234-5678-1234-567812345678'') = Inr FAKE_PLAYER_ID"
  by (simp add: PlayerId_init_def UUID_hex_fake FAKE_PLAYER_ID_def)






section \<open>The dispatch loop\<close>

lemma pop_PDict:
  "pop (PDict items) key =
     (case map_of items (PStr key) of
        None \<Rightarrow> Inl KeyError
      | Some v \<Rightarrow> Inr (v, PDict (AList.delete (PStr key) items)))"
  by (simp add: pop_def)

text \<open>
  Claim C9. When the received payload has a key \<^verbatim>\<open>event\<close> whose value is not
  \<^verbatim>\<open>"gameState"\<close>, the round logs one warning and raises nothing; the bot is as before;
  the round is the same whatever the decoder's \<^verbatim>\<open>UUID\<close> and the bot's handler are, so
  neither is consulted; and the loop goes on with the next body.
\<close>

theorem unknown_event_is_logged_and_skipped:
  assumes "loads body = Inr (PDict items)"
    and "map_of items (PStr ''event'') = Some event"
    and "event \<noteq> PStr ''gameState''"
  shows "on_body U loads handle c body =
           (c\<lparr>printed := printed c @ [body],
              warnings := warnings c @ [(event, PDict (AList.delete (PStr ''event'') items))]\<rparr>,
            None)
       \<and> bot (fst (on_body U loads handle c body)) = bot c
       \<and> (\<forall>U' handle'. on_body U' loads handle' c body = on_body U loads handle c body)
       \<and> do_client U loads handle c (body # rest) =
           do_client U loads handle
             (c\<lparr>printed := printed c @ [body],
                warnings := warnings c @ [(event, PDict (AList.delete (PStr ''event'') items))]\<rparr>)
             rest"
proof -
  have step: "on_body V loads h c body =
           (c\<lparr>printed := printed c @ [body],
              warnings := warnings c @ [(event, PDict (AList.delete (PStr ''event'') items))]\<rparr>,
            None)" for V h
    using assms by (simp add: on_body_def pop_PDict)
  then show ?thesis by simp
qed

theorem unknown_event_is_logged_and_skipped_witness:
  "do_client UUID_hex Inr (\<lambda>b m. Inr (Suc b)) \<lparr>bot = 0, printed = [], warnings = []\<rparr>
      [PDict [(PStr ''event'', PStr ''ping'')]]
     = (\<lparr>bot = 0, printed = [PDict [(PStr ''event'', PStr ''ping'')]],
          warnings = [(PStr ''ping'', PDict [])]\<rparr>, ConnectionClosed)"
proof -
  have l: "Inr (PDict [(PStr ''event'', PStr ''ping'')])
             = (Inr (PDict [(PStr ''event'', PStr ''ping'')]) :: error + pyval)" by simp
  have e: "map_of [(PStr ''event'', PStr ''ping'')] (PStr ''event'') = Some (PStr ''ping'')"
    by simp
  have n: "PStr ''ping'' \<noteq> PStr ''gameState''" by simp
  from unknown_event_is_logged_and_skipped [of Inr, OF l e n, of UUID_hex "\<lambda>b m. Inr (Suc b)"
      "\<lparr>bot = 0::nat, printed = [], warnings = []\<rparr>" "[]"]
  show ?thesis by simp
qed

text \<open>
  Claim C10. When the received payload is a dictionary without the key \<^verbatim>\<open>event\<close>,
  \<^verbatim>\<open>data.pop("event")\<close> raises \<^verbatim>\<open>KeyError\<close>: nothing is logged, and the loop ends with
  that exception whatever bodies would follow.
\<close>

theorem missing_event_key_ends_the_loop:
  assumes "loads body = Inr (PDict items)"
    and "map_of items (PStr ''event'') = None"
  shows "on_body U loads handle c body = (c\<lparr>printed := printed c @ [body]\<rparr>, Some KeyError)
       \<and> do_client U loads handle c (body # rest) = (c\<lparr>printed := printed c @ [body]\<rparr>, KeyError)"
  using assms by (simp add: on_body_def pop_PDict)

theorem missing_event_key_ends_the_loop_witness:
  "do_client UUID_hex Inr (\<lambda>b m. Inr (Suc b)) \<lparr>bot = 0, printed = [], warnings = []\<rparr>
      [PDict [(PStr ''evnt'', PStr ''ping'')], PDict [(PStr ''event'', PStr ''ping'')]]
     = (\<lparr>bot = 0, printed = [PDict [(PStr ''evnt'', PStr ''ping'')]], warnings = []\<rparr>,
        KeyError)"
proof -
  have l: "Inr (PDict [(PStr ''evnt'', PStr ''ping'')])
             = (Inr (PDict [(PStr ''evnt'', PStr ''ping'')]) :: error + pyval)" by simp
  have e: "map_of [(PStr ''evnt'', PStr ''ping'')] (PStr ''event'') = None"
    by simp
  from missing_event_key_ends_the_loop [of Inr, OF l e, of UUID_hex "\<lambda>b m. Inr (Suc b)"
      "\<lparr>bot = 0::nat, printed = [], warnings = []\<rparr>"
      "[PDict [(PStr ''event'', PStr ''ping'')]]"]
  show ?thesis by simp
qed

section \<open>Aliasing: the caller's list and the entity\<close>

lemma get_cards_is_a_copy:
  assumes "get_cards s self = (s', r)" and "cards_at self < fresh s"
    and "list_setitem s' r i v = Inr s''"
  shows "r \<noteq> cards_at self \<and> cell s' r = cell s (cards_at self)
       \<and> cell s'' (cards_at self) = cell s (cards_at self)"
  using assms
  by (auto simp: get_cards_def list_copy_def new_list_def list_setitem_def split: if_splits)

text \<open>
  Claim C5 says that no mutation of a list the caller holds changes what an accessor
  returns. A caller builds a \<^verbatim>\<open>PlayerGameState\<close> from its list \<^verbatim>\<open>[None, None]\<close>, reads
  \<^verbatim>\<open>get_cards()\<close>, assigns \<^verbatim>\<open>cards[0] = Card("Ah")\<close> and reads \<^verbatim>\<open>get_cards()\<close> again:
  the first result is \<^verbatim>\<open>[None, None]\<close>, the second has the new card.
\<close>

theorem caller_list_is_shared:
  "(case PlayerGameState_new caller_store caller_cards (PBool False) (PInt 0) (PInt 0) (PInt 0) of
      Inl e \<Rightarrow> False
    | Inr player \<Rightarrow>
        (case get_cards caller_store player of
           (s1, before) \<Rightarrow>
             (case list_setitem s1 caller_cards 0 (Card_obj HEARTS) of
                Inl e \<Rightarrow> False
              | Inr s2 \<Rightarrow>
                  (case get_cards s2 player of
                     (s3, after) \<Rightarrow>
                       cell s1 before = [PNone, PNone]
                       \<and> cell s3 after = [Card_obj HEARTS, PNone]))))"
  by (simp add: caller_store_def caller_cards_def PlayerGameState_new_def get_cards_def
      list_copy_def new_list_def list_setitem_def PlayerGameState_init_def assert_type_def
      assert_int_nonneg_def isinstance_def py_assert_def)

end
